theory Spec2Isabelle
  imports Complex_Main
begin

section \<open>Values of the program\<close>

subsection \<open>Numbers\<close>

text \<open>
  The amounts, the limit and the rates of \<^verbatim>\<open>src/main.py\<close> are Python numbers: an
  \<^verbatim>\<open>int\<close> (unbounded) or a \<^verbatim>\<open>float\<close>. The tag is kept, since Python's arithmetic
  and formatting depend on it: \<^verbatim>\<open>int - int\<close> is an int, \<^verbatim>\<open>/\<close> always gives a float,
  \<^verbatim>\<open>round(n, 2)\<close> of an int is that int. A float carries its value as a real number:
  binary rounding, overflow, infinities and NaN are outside this model.
\<close>

datatype number = PyInt int | PyFloat real

datatype error = ValueError | ZeroDivisionError

fun to_real :: "number \<Rightarrow> real" where
  "to_real (PyInt i) = of_int i"
| "to_real (PyFloat x) = x"

fun py_add :: "number \<Rightarrow> number \<Rightarrow> number" where
  "py_add (PyInt a) (PyInt b) = PyInt (a + b)"
| "py_add a b = PyFloat (to_real a + to_real b)"

fun py_sub :: "number \<Rightarrow> number \<Rightarrow> number" where
  "py_sub (PyInt a) (PyInt b) = PyInt (a - b)"
| "py_sub a b = PyFloat (to_real a - to_real b)"

fun py_neg :: "number \<Rightarrow> number" where
  "py_neg (PyInt a) = PyInt (- a)"
| "py_neg (PyFloat x) = PyFloat (- x)"

text \<open>True division \<^verbatim>\<open>a / b\<close>: a float, or ZeroDivisionError when the divisor is zero.\<close>

definition py_truediv :: "number \<Rightarrow> number \<Rightarrow> error + number" where
  "py_truediv a b =
     (if to_real b = 0 then Inl ZeroDivisionError
      else Inr (PyFloat (to_real a / to_real b)))"

definition py_gt :: "number \<Rightarrow> number \<Rightarrow> bool" where
  "py_gt a b = (to_real b < to_real a)"

definition py_lt :: "number \<Rightarrow> number \<Rightarrow> bool" where
  "py_lt a b = (to_real a < to_real b)"

definition py_eq :: "number \<Rightarrow> number \<Rightarrow> bool" where
  "py_eq a b = (to_real a = to_real b)"

text \<open>
  \<^verbatim>\<open>round(x, ndigits)\<close> with \<^verbatim>\<open>ndigits >= 0\<close>: an int is returned as it is, a float is
  rounded to that many decimals, a tie going to the even neighbour.
\<close>

definition round_half_even :: "real \<Rightarrow> int" where
  "round_half_even y =
     (let f = \<lfloor>y\<rfloor>; d = y - of_int f
      in if d < 1 / 2 then f
         else if 1 / 2 < d then f + 1
         else if even f then f else f + 1)"

fun py_round :: "number \<Rightarrow> nat \<Rightarrow> number" where
  "py_round (PyInt i) ndigits = PyInt i"
| "py_round (PyFloat x) ndigits =
     PyFloat (of_int (round_half_even (x * 10 ^ ndigits)) / 10 ^ ndigits)"

subsection \<open>Dates and the clock\<close>

text \<open>
  A \<^verbatim>\<open>datetime.date\<close> is its proleptic Gregorian ordinal (Python's \<^verbatim>\<open>toordinal()\<close>):
  two dates are equal when their ordinals are, and \<^verbatim>\<open>(a - b).days\<close> is the difference
  of the ordinals. A \<^verbatim>\<open>datetime\<close> is a date and a time of day; \<^verbatim>\<open>.date()\<close> drops the
  time of day.
\<close>

datatype date = Date (toordinal: int)

datatype timedelta = Timedelta (days: int)

datatype datetime = Datetime (datetime_date: date) (microsecond_of_day: nat)

definition date_sub :: "date \<Rightarrow> date \<Rightarrow> timedelta" where
  "date_sub a b = Timedelta (toordinal a - toordinal b)"

text \<open>
  \<^verbatim>\<open>dt.datetime.now()\<close> reads the system clock. The clock is the sequence of its
  readings, and the number of readings made so far is threaded through every function
  that reads it: reading number \<open>t\<close> returns \<open>clk t\<close>.
\<close>

type_synonym clock = "nat \<Rightarrow> datetime"

definition now :: "clock \<Rightarrow> nat \<Rightarrow> datetime \<times> nat" where
  "now clk t = (clk t, Suc t)"

subsection \<open>Strings and messages\<close>

text \<open>
  A Python \<^verbatim>\<open>str\<close> is modelled by its UTF-8 bytes, so an ASCII literal reads as in the
  source and a Cyrillic one is a list of bytes. The source only compares and concatenates
  strings, and both agree with the same operations on the UTF-8 encodings.

  The text of a number is produced by Python's \<^verbatim>\<open>format\<close>; a message is therefore kept
  as the sequence of its pieces, in order: a literal text, or a number together with its
  format specification (\<^verbatim>\<open>''\<close> for \<^verbatim>\<open>{x}\<close>, \<^verbatim>\<open>.2f\<close> for \<^verbatim>\<open>{0:.2f}\<close>).
\<close>

datatype piece = Lit string | Fmt number string

type_synonym message = "piece list"

text \<open>
  The literals of the source. In Latin transliteration they read:
  \<^item> \<open>MSG_EAT_MORE\<close>: "Segodnya mozhno s'est' chto-nibud' eshchyo, no s obshchey
    kaloriynost'yu ne bolee " (today you may still eat something more, but with total
    calories no more than), lines 116-117 up to the replacement field;
  \<^item> \<open>MSG_KCAL\<close>: " kKal", line 117 after the replacement field;
  \<^item> \<open>MSG_STOP_EATING\<close>: "Khvatit est'!" (stop eating!), line 119;
  \<^item> \<open>MSG_LEFT_TODAY\<close>: "Na segodnya ostalos' " (left for today), line 173 up to the
    replacement field;
  \<^item> \<open>MSG_NO_MONEY\<close>: "Deneg net, derzhis'" (no money, hang in there), line 177;
  \<^item> \<open>MSG_DEBT\<close>: "Deneg net, derzhis': tvoy dolg - " (no money, hang in there: your
    debt is), lines 179-180 up to the first replacement field;
  \<^item> \<open>LABEL_RUB\<close>: "rub" in Cyrillic letters (U+0440 U+0443 U+0431), line 170.
\<close>

definition MSG_EAT_MORE :: string where
  "MSG_EAT_MORE =
    [CHR 0xD0, CHR 0xA1, CHR 0xD0, CHR 0xB5, CHR 0xD0, CHR 0xB3, CHR 0xD0, CHR 0xBE,
     CHR 0xD0, CHR 0xB4, CHR 0xD0, CHR 0xBD, CHR 0xD1, CHR 0x8F, CHR 0x20, CHR 0xD0,
     CHR 0xBC, CHR 0xD0, CHR 0xBE, CHR 0xD0, CHR 0xB6, CHR 0xD0, CHR 0xBD, CHR 0xD0,
     CHR 0xBE, CHR 0x20, CHR 0xD1, CHR 0x81, CHR 0xD1, CHR 0x8A, CHR 0xD0, CHR 0xB5,
     CHR 0xD1, CHR 0x81, CHR 0xD1, CHR 0x82, CHR 0xD1, CHR 0x8C, CHR 0x20, CHR 0xD1,
     CHR 0x87, CHR 0xD1, CHR 0x82, CHR 0xD0, CHR 0xBE, CHR 0x2D, CHR 0xD0, CHR 0xBD,
     CHR 0xD0, CHR 0xB8, CHR 0xD0, CHR 0xB1, CHR 0xD1, CHR 0x83, CHR 0xD0, CHR 0xB4,
     CHR 0xD1, CHR 0x8C, CHR 0x20, CHR 0xD0, CHR 0xB5, CHR 0xD1, CHR 0x89, CHR 0xD1,
     CHR 0x91, CHR 0x2C, CHR 0x20, CHR 0xD0, CHR 0xBD, CHR 0xD0, CHR 0xBE, CHR 0x20,
     CHR 0xD1, CHR 0x81, CHR 0x20, CHR 0xD0, CHR 0xBE, CHR 0xD0, CHR 0xB1, CHR 0xD1,
     CHR 0x89, CHR 0xD0, CHR 0xB5, CHR 0xD0, CHR 0xB9, CHR 0x20, CHR 0xD0, CHR 0xBA,
     CHR 0xD0, CHR 0xB0, CHR 0xD0, CHR 0xBB, CHR 0xD0, CHR 0xBE, CHR 0xD1, CHR 0x80,
     CHR 0xD0, CHR 0xB8, CHR 0xD0, CHR 0xB9, CHR 0xD0, CHR 0xBD, CHR 0xD0, CHR 0xBE,
     CHR 0xD1, CHR 0x81, CHR 0xD1, CHR 0x82, CHR 0xD1, CHR 0x8C, CHR 0xD1, CHR 0x8E,
     CHR 0x20, CHR 0xD0, CHR 0xBD, CHR 0xD0, CHR 0xB5, CHR 0x20, CHR 0xD0, CHR 0xB1,
     CHR 0xD0, CHR 0xBE, CHR 0xD0, CHR 0xBB, CHR 0xD0, CHR 0xB5, CHR 0xD0, CHR 0xB5,
     CHR 0x20]"

definition MSG_KCAL :: string where
  "MSG_KCAL =
    [CHR 0x20, CHR 0xD0, CHR 0xBA, CHR 0xD0, CHR 0x9A, CHR 0xD0, CHR 0xB0, CHR 0xD0,
     CHR 0xBB]"

definition MSG_STOP_EATING :: string where
  "MSG_STOP_EATING =
    [CHR 0xD0, CHR 0xA5, CHR 0xD0, CHR 0xB2, CHR 0xD0, CHR 0xB0, CHR 0xD1, CHR 0x82,
     CHR 0xD0, CHR 0xB8, CHR 0xD1, CHR 0x82, CHR 0x20, CHR 0xD0, CHR 0xB5, CHR 0xD1,
     CHR 0x81, CHR 0xD1, CHR 0x82, CHR 0xD1, CHR 0x8C, CHR 0x21]"

definition MSG_LEFT_TODAY :: string where
  "MSG_LEFT_TODAY =
    [CHR 0xD0, CHR 0x9D, CHR 0xD0, CHR 0xB0, CHR 0x20, CHR 0xD1, CHR 0x81, CHR 0xD0,
     CHR 0xB5, CHR 0xD0, CHR 0xB3, CHR 0xD0, CHR 0xBE, CHR 0xD0, CHR 0xB4, CHR 0xD0,
     CHR 0xBD, CHR 0xD1, CHR 0x8F, CHR 0x20, CHR 0xD0, CHR 0xBE, CHR 0xD1, CHR 0x81,
     CHR 0xD1, CHR 0x82, CHR 0xD0, CHR 0xB0, CHR 0xD0, CHR 0xBB, CHR 0xD0, CHR 0xBE,
     CHR 0xD1, CHR 0x81, CHR 0xD1, CHR 0x8C, CHR 0x20]"

definition MSG_NO_MONEY :: string where
  "MSG_NO_MONEY =
    [CHR 0xD0, CHR 0x94, CHR 0xD0, CHR 0xB5, CHR 0xD0, CHR 0xBD, CHR 0xD0, CHR 0xB5,
     CHR 0xD0, CHR 0xB3, CHR 0x20, CHR 0xD0, CHR 0xBD, CHR 0xD0, CHR 0xB5, CHR 0xD1,
     CHR 0x82, CHR 0x2C, CHR 0x20, CHR 0xD0, CHR 0xB4, CHR 0xD0, CHR 0xB5, CHR 0xD1,
     CHR 0x80, CHR 0xD0, CHR 0xB6, CHR 0xD0, CHR 0xB8, CHR 0xD1, CHR 0x81, CHR 0xD1,
     CHR 0x8C]"

definition MSG_DEBT :: string where
  "MSG_DEBT =
    [CHR 0xD0, CHR 0x94, CHR 0xD0, CHR 0xB5, CHR 0xD0, CHR 0xBD, CHR 0xD0, CHR 0xB5,
     CHR 0xD0, CHR 0xB3, CHR 0x20, CHR 0xD0, CHR 0xBD, CHR 0xD0, CHR 0xB5, CHR 0xD1,
     CHR 0x82, CHR 0x2C, CHR 0x20, CHR 0xD0, CHR 0xB4, CHR 0xD0, CHR 0xB5, CHR 0xD1,
     CHR 0x80, CHR 0xD0, CHR 0xB6, CHR 0xD0, CHR 0xB8, CHR 0xD1, CHR 0x81, CHR 0xD1,
     CHR 0x8C, CHR 0x3A, CHR 0x20, CHR 0xD1, CHR 0x82, CHR 0xD0, CHR 0xB2, CHR 0xD0,
     CHR 0xBE, CHR 0xD0, CHR 0xB9, CHR 0x20, CHR 0xD0, CHR 0xB4, CHR 0xD0, CHR 0xBE,
     CHR 0xD0, CHR 0xBB, CHR 0xD0, CHR 0xB3, CHR 0x20, CHR 0x2D, CHR 0x20]"

definition LABEL_RUB :: string where
  "LABEL_RUB =
    [CHR 0xD1, CHR 0x80, CHR 0xD1, CHR 0x83, CHR 0xD0, CHR 0xB1]"

section \<open>The classes of \<^verbatim>\<open>src/main.py\<close>\<close>

subsection \<open>Record\<close>

record Record =
  amount :: number
  date :: date
  comment :: string

text \<open>
  \<^verbatim>\<open>Record.__init__(self, amount, comment, date='')\<close>, lines 12-28. The optional argument
  is \<open>None\<close> when the caller omits it and then takes the default \<^verbatim>\<open>''\<close>.
  \<^verbatim>\<open>dt.datetime.strptime\<close> belongs to Python's library, not to this program: it is the
  parameter \<open>strptime\<close>, called with the text and the format, returning the parsed
  \<^verbatim>\<open>datetime\<close> or the error it raises. The constructor catches nothing.
\<close>

definition Record_init ::
  "(string \<Rightarrow> string \<Rightarrow> error + datetime) \<Rightarrow> clock \<Rightarrow> nat \<Rightarrow>
   number \<Rightarrow> string \<Rightarrow> string option \<Rightarrow> (error + Record) \<times> nat" where
  "Record_init strptime clk t amount' comment' date_arg =
     (let date' = (case date_arg of None \<Rightarrow> [] | Some s \<Rightarrow> s) in
      if date' = []
      then (case now clk t of (n, t') \<Rightarrow>
              (Inr \<lparr>amount = amount', date = datetime_date n, comment = comment'\<rparr>, t'))
      else (case strptime date' ''%d.%m.%Y'' of
              Inl e \<Rightarrow> (Inl e, t)
            | Inr d \<Rightarrow>
                (Inr \<lparr>amount = amount', date = datetime_date d, comment = comment'\<rparr>, t)))"

subsection \<open>Calculator\<close>

record Calculator =
  limit :: number
  records :: "Record list"

definition Calculator_init :: "number \<Rightarrow> Calculator" where
  "Calculator_init limit' = \<lparr>limit = limit', records = []\<rparr>"

definition add_record :: "Calculator \<Rightarrow> Record \<Rightarrow> Calculator" where
  "add_record self record' = self\<lparr>records := records self @ [record']\<rparr>"

text \<open>
  \<^verbatim>\<open>get_today_stats\<close>, lines 77-81: the loop reads the clock once for every record.
\<close>

fun today_loop :: "clock \<Rightarrow> Record list \<Rightarrow> number \<Rightarrow> nat \<Rightarrow> number \<times> nat" where
  "today_loop clk [] today_stats t = (today_stats, t)"
| "today_loop clk (r # rs) today_stats t =
     (case now clk t of (n, t') \<Rightarrow>
        if date r = datetime_date n
        then today_loop clk rs (py_add today_stats (amount r)) t'
        else today_loop clk rs today_stats t')"

definition get_today_stats :: "clock \<Rightarrow> nat \<Rightarrow> Calculator \<Rightarrow> number \<times> nat" where
  "get_today_stats clk t self = today_loop clk (records self) (PyInt 0) t"

text \<open>
  \<^verbatim>\<open>get_week_stats\<close>, lines 90-98: the clock is read once, before the loop.
\<close>

fun week_loop :: "date \<Rightarrow> Record list \<Rightarrow> number \<Rightarrow> number" where
  "week_loop today [] week_stats = week_stats"
| "week_loop today (r # rs) week_stats =
     (if days (date_sub today (date r)) < 7 \<and> days (date_sub today (date r)) \<ge> 0
      then week_loop today rs (py_add week_stats (amount r))
      else week_loop today rs week_stats)"

definition get_week_stats :: "clock \<Rightarrow> nat \<Rightarrow> Calculator \<Rightarrow> number \<times> nat" where
  "get_week_stats clk t self =
     (case now clk t of (n, t') \<Rightarrow>
        (week_loop (datetime_date n) (records self) (PyInt 0), t'))"

subsection \<open>CaloriesCalculator\<close>

text \<open>\<^verbatim>\<open>get_calories_remained\<close>, lines 113-119.\<close>

definition get_calories_remained :: "clock \<Rightarrow> nat \<Rightarrow> Calculator \<Rightarrow> message \<times> nat" where
  "get_calories_remained clk t self =
     (case get_today_stats clk t self of (today_stats, t') \<Rightarrow>
        (let x = py_sub (limit self) today_stats in
         if py_gt x (PyInt 0)
         then [Lit MSG_EAT_MORE, Fmt x [], Lit MSG_KCAL]
         else [Lit MSG_STOP_EATING], t'))"

subsection \<open>CashCalculator\<close>

definition USD_RATE :: number where
  "USD_RATE = PyFloat 60"

definition EURO_RATE :: number where
  "EURO_RATE = PyFloat 70"

text \<open>
  \<^verbatim>\<open>get_today_cash_remained(self, currency, USD_RATE=USD_RATE, EURO_RATE=EURO_RATE)\<close>,
  lines 132-181. An omitted rate is \<open>None\<close> and takes the class attribute. The result is
  the error raised, or the value returned: \<open>Some\<close> message, or \<open>None\<close> where the
  \<^verbatim>\<open>if/elif/elif\<close> chain of lines 171-181 is left without a \<^verbatim>\<open>return\<close>.
\<close>

definition get_today_cash_remained ::
  "clock \<Rightarrow> nat \<Rightarrow> Calculator \<Rightarrow> string \<Rightarrow> number option \<Rightarrow> number option \<Rightarrow>
   (error + message option) \<times> nat" where
  "get_today_cash_remained clk t self currency USD_RATE_arg EURO_RATE_arg =
     (let USD_RATE' = (case USD_RATE_arg of None \<Rightarrow> USD_RATE | Some r \<Rightarrow> r);
          EURO_RATE' = (case EURO_RATE_arg of None \<Rightarrow> EURO_RATE | Some r \<Rightarrow> r);
          currency_type = currency
      in case get_today_stats clk t self of (today_stats, t') \<Rightarrow>
        (let cash_remained = py_sub (limit self) today_stats in
         case (if currency = ''usd''
               then (case py_truediv cash_remained USD_RATE' of
                       Inl e \<Rightarrow> Inl e | Inr q \<Rightarrow> Inr (q, ''USD''))
               else if currency_type = ''eur''
               then (case py_truediv cash_remained EURO_RATE' of
                       Inl e \<Rightarrow> Inl e | Inr q \<Rightarrow> Inr (q, ''Euro''))
               else if currency_type = ''rub''
               then (let unused = py_eq cash_remained (PyFloat 1)
                     in Inr (cash_remained, LABEL_RUB))
               else Inr (cash_remained, currency_type)) of
           Inl e \<Rightarrow> (Inl e, t')
         | Inr (cash_remained, currency_type) \<Rightarrow>
             (Inr (if py_gt cash_remained (PyInt 0)
                   then Some [Lit MSG_LEFT_TODAY, Fmt (py_round cash_remained 2) [],
                              Lit '' '', Lit currency_type]
                   else if py_eq cash_remained (PyInt 0)
                   then Some [Lit MSG_NO_MONEY]
                   else if py_lt cash_remained (PyInt 0)
                   then Some [Lit MSG_DEBT, Fmt (py_neg cash_remained) ''.2f'',
                              Lit '' '', Lit currency_type]
                   else None), t')))"

text \<open>
  \<^verbatim>\<open>CashCalculator.get_week_stats\<close>, lines 187-188: the base method is called, its
  value is dropped and the method ends without a \<^verbatim>\<open>return\<close>, so it returns Python's
  \<^verbatim>\<open>None\<close>.
\<close>

definition CashCalculator_get_week_stats ::
  "clock \<Rightarrow> nat \<Rightarrow> Calculator \<Rightarrow> number option \<times> nat" where
  "CashCalculator_get_week_stats clk t self =
     (case get_week_stats clk t self of (dropped, t') \<Rightarrow> (None, t'))"

subsection \<open>Example states\<close>

text \<open>
  A clock that shows one day (ordinal 738000, the 29th of July 2021) at every reading, and
  a calculator whose records all carry that date; the concrete instances below are built
  from them.
\<close>

definition example_clock :: clock where
  "example_clock = (\<lambda>i. Datetime (Date 738000) (43200000000 + i))"

definition example_calculator :: "number \<Rightarrow> number list \<Rightarrow> Calculator" where
  "example_calculator limit' amounts =
     \<lparr>limit = limit',
      records = map (\<lambda>a. \<lparr>amount = a, date = Date 738000, comment = ''spent''\<rparr>) amounts\<rparr>"

section \<open>Properties\<close>

subsection \<open>Arithmetic of numbers and the two loops\<close>

lemma to_real_py_add: "to_real (py_add a b) = to_real a + to_real b"
  by (cases a; cases b) simp_all

lemma to_real_py_sub: "to_real (py_sub a b) = to_real a - to_real b"
  by (cases a; cases b) simp_all


lemma to_real_foldl_py_add:
  "to_real (foldl py_add acc xs) = to_real acc + (\<Sum>x\<leftarrow>xs. to_real x)"
  by (induction xs arbitrary: acc) (simp_all add: to_real_py_add)


lemma week_loop_filter:
  "week_loop today rs acc =
     foldl py_add acc (map amount
       (filter (\<lambda>r. 0 \<le> days (date_sub today (date r)) \<and> days (date_sub today (date r)) < 7) rs))"
  by (induction rs arbitrary: acc) auto



text \<open>
  \<open>get_today_cash_remained\<close> as one case distinction: the conversion of lines 162-170,
  then the choice of the message by the sign of the amount (lines 171-181). For a number
  the three tests of the chain are exhaustive, so the method always returns a message.
\<close>

lemma cash_sign_cases:
  "get_today_cash_remained clk t self currency USD_RATE_arg EURO_RATE_arg =
     (case get_today_stats clk t self of (today_stats, t') \<Rightarrow>
        (case (if currency = ''usd''
               then (case py_truediv (py_sub (limit self) today_stats)
                            (case USD_RATE_arg of None \<Rightarrow> PyFloat 60 | Some r \<Rightarrow> r) of
                       Inl e \<Rightarrow> Inl e | Inr q \<Rightarrow> Inr (q, ''USD''))
               else if currency = ''eur''
               then (case py_truediv (py_sub (limit self) today_stats)
                            (case EURO_RATE_arg of None \<Rightarrow> PyFloat 70 | Some r \<Rightarrow> r) of
                       Inl e \<Rightarrow> Inl e | Inr q \<Rightarrow> Inr (q, ''Euro''))
               else if currency = ''rub''
               then Inr (py_sub (limit self) today_stats, LABEL_RUB)
               else Inr (py_sub (limit self) today_stats, currency)) of
           Inl e \<Rightarrow> (Inl e, t')
         | Inr (x, label) \<Rightarrow>
             (Inr (Some (if 0 < to_real x
                         then [Lit MSG_LEFT_TODAY, Fmt (py_round x 2) [], Lit '' '', Lit label]
                         else if to_real x = 0
                         then [Lit MSG_NO_MONEY]
                         else [Lit MSG_DEBT, Fmt (py_neg x) ''.2f'', Lit '' '', Lit label])),
              t')))"
  by (auto simp: get_today_cash_remained_def Let_def py_gt_def py_eq_def py_lt_def
        USD_RATE_def EURO_RATE_def split: prod.splits sum.splits option.splits)

lemmas example_simps =
  example_clock_def example_calculator_def get_today_stats_def now_def

subsection \<open>Totals of today and of the week\<close>



text \<open>
  Claim C2. With \<open>today\<close> the date of the one clock reading, \<open>get_week_stats\<close> returns
  the amounts of exactly the records with \<open>0 \<le> (today - date).days < 7\<close>, added in the
  order of the list starting from the int \<open>0\<close>. A record dated 6 days before \<open>today\<close>
  adds its amount to the result; a record dated 7 days before \<open>today\<close>, and a record
  dated after \<open>today\<close>, leave the result as it was.
\<close>

theorem get_week_stats_window:
  assumes today: "today = datetime_date (clk t)"
  shows "fst (get_week_stats clk t self) =
           foldl py_add (PyInt 0) (map amount
             (filter (\<lambda>r. 0 \<le> days (date_sub today (date r)) \<and> days (date_sub today (date r)) < 7)
                (records self)))
       \<and> to_real (fst (get_week_stats clk t self)) =
           (\<Sum>r\<leftarrow>filter (\<lambda>r. 0 \<le> days (date_sub today (date r))
                             \<and> days (date_sub today (date r)) < 7) (records self).
              to_real (amount r))
       \<and> (toordinal (date r) = toordinal today - 6 \<longrightarrow>
            fst (get_week_stats clk t (add_record self r)) =
              py_add (fst (get_week_stats clk t self)) (amount r))
       \<and> (toordinal (date r) = toordinal today - 7 \<longrightarrow>
            fst (get_week_stats clk t (add_record self r)) = fst (get_week_stats clk t self))
       \<and> (toordinal today < toordinal (date r) \<longrightarrow>
            fst (get_week_stats clk t (add_record self r)) = fst (get_week_stats clk t self))"
proof -
  have loop: "fst (get_week_stats clk t c) =
      foldl py_add (PyInt 0) (map amount
        (filter (\<lambda>r. 0 \<le> days (date_sub today (date r)) \<and> days (date_sub today (date r)) < 7)
           (records c)))" for c
    by (simp add: get_week_stats_def now_def today week_loop_filter)
  have total: "to_real (fst (get_week_stats clk t self)) =
      (\<Sum>r\<leftarrow>filter (\<lambda>r. 0 \<le> days (date_sub today (date r))
                        \<and> days (date_sub today (date r)) < 7) (records self).
         to_real (amount r))"
    by (simp add: loop to_real_foldl_py_add comp_def)
  have six: "toordinal (date r) = toordinal today - 6 \<longrightarrow>
      fst (get_week_stats clk t (add_record self r)) =
        py_add (fst (get_week_stats clk t self)) (amount r)"
    by (simp add: loop add_record_def date_sub_def)
  have seven: "toordinal (date r) = toordinal today - 7 \<longrightarrow>
      fst (get_week_stats clk t (add_record self r)) = fst (get_week_stats clk t self)"
    by (simp add: loop add_record_def date_sub_def)
  have future: "toordinal today < toordinal (date r) \<longrightarrow>
      fst (get_week_stats clk t (add_record self r)) = fst (get_week_stats clk t self)"
    by (simp add: loop add_record_def date_sub_def)
  show ?thesis
    using loop [of self] total six seven future by blast
qed

theorem get_week_stats_window_witness:
  "Date 738000 = datetime_date ((\<lambda>i. Datetime (Date 738000) 0) 0)
   \<and> toordinal (date \<lparr>amount = PyInt 5, date = Date 737994, comment = ''six''\<rparr>)
       = toordinal (Date 738000) - 6
   \<and> toordinal (date \<lparr>amount = PyInt 7, date = Date 737993, comment = ''seven''\<rparr>)
       = toordinal (Date 738000) - 7
   \<and> toordinal (Date 738000)
       < toordinal (date \<lparr>amount = PyInt 9, date = Date 738001, comment = ''ahead''\<rparr>)
   \<and> fst (get_week_stats (\<lambda>i. Datetime (Date 738000) 0) 0
        \<lparr>limit = PyInt 1000,
         records = [\<lparr>amount = PyInt 300, date = Date 738000, comment = ''lunch''\<rparr>]\<rparr>) = PyInt 300
   \<and> fst (get_week_stats (\<lambda>i. Datetime (Date 738000) 0) 0
        (add_record
          \<lparr>limit = PyInt 1000,
           records = [\<lparr>amount = PyInt 300, date = Date 738000, comment = ''lunch''\<rparr>]\<rparr>
          \<lparr>amount = PyInt 5, date = Date 737994, comment = ''six''\<rparr>)) = PyInt 305
   \<and> fst (get_week_stats (\<lambda>i. Datetime (Date 738000) 0) 0
        (add_record
          \<lparr>limit = PyInt 1000,
           records = [\<lparr>amount = PyInt 300, date = Date 738000, comment = ''lunch''\<rparr>]\<rparr>
          \<lparr>amount = PyInt 7, date = Date 737993, comment = ''seven''\<rparr>)) = PyInt 300
   \<and> fst (get_week_stats (\<lambda>i. Datetime (Date 738000) 0) 0
        (add_record
          \<lparr>limit = PyInt 1000,
           records = [\<lparr>amount = PyInt 300, date = Date 738000, comment = ''lunch''\<rparr>]\<rparr>
          \<lparr>amount = PyInt 9, date = Date 738001, comment = ''ahead''\<rparr>)) = PyInt 300"
  using get_week_stats_window
    [of "Date 738000" "\<lambda>i. Datetime (Date 738000) 0" 0
        "\<lparr>limit = PyInt 1000,
         records = [\<lparr>amount = PyInt 300, date = Date 738000, comment = ''lunch''\<rparr>]\<rparr>"
        "\<lparr>amount = PyInt 5, date = Date 737994, comment = ''six''\<rparr>"]
    get_week_stats_window
    [of "Date 738000" "\<lambda>i. Datetime (Date 738000) 0" 0
        "\<lparr>limit = PyInt 1000,
         records = [\<lparr>amount = PyInt 300, date = Date 738000, comment = ''lunch''\<rparr>]\<rparr>"
        "\<lparr>amount = PyInt 7, date = Date 737993, comment = ''seven''\<rparr>"]
    get_week_stats_window
    [of "Date 738000" "\<lambda>i. Datetime (Date 738000) 0" 0
        "\<lparr>limit = PyInt 1000,
         records = [\<lparr>amount = PyInt 300, date = Date 738000, comment = ''lunch''\<rparr>]\<rparr>"
        "\<lparr>amount = PyInt 9, date = Date 738001, comment = ''ahead''\<rparr>"]
  by (simp add: date_sub_def)

subsection \<open>Construction of a record\<close>

text \<open>
  Claim C5. \<open>Record_init\<close> resolves the date in three ways. With no date argument the
  date is the date of the clock reading made by the constructor. With a non-empty text
  the library parser is called with that text and the format \<^verbatim>\<open>%d.%m.%Y\<close>: when it
  returns a \<^verbatim>\<open>datetime\<close>, the record carries its date part (a \<open>date\<close> has no time of
  day); when it raises, the constructor ends with that same error and builds no record.
\<close>

theorem Record_init_date:
  "(date_arg = None \<longrightarrow>
      Record_init strptime clk t a c date_arg =
        (Inr \<lparr>amount = a, date = datetime_date (clk t), comment = c\<rparr>, Suc t))
   \<and> (date_arg = Some s \<and> s \<noteq> [] \<and> strptime s ''%d.%m.%Y'' = Inr d \<longrightarrow>
      Record_init strptime clk t a c date_arg =
        (Inr \<lparr>amount = a, date = datetime_date d, comment = c\<rparr>, t))
   \<and> (date_arg = Some s \<and> s \<noteq> [] \<and> strptime s ''%d.%m.%Y'' = Inl e \<longrightarrow>
      Record_init strptime clk t a c date_arg = (Inl e, t))"
  by (simp add: Record_init_def now_def)

theorem Record_init_date_witness:
  "(\<lambda>s f. if s = ''01.02.2020'' \<and> f = ''%d.%m.%Y''
           then Inr (Datetime (Date 737456) 0) else Inl ValueError)
      ''01.02.2020'' ''%d.%m.%Y'' = Inr (Datetime (Date 737456) 0)
   \<and> (\<lambda>s f. if s = ''01.02.2020'' \<and> f = ''%d.%m.%Y''
           then Inr (Datetime (Date 737456) 0) else Inl ValueError)
      ''2020-02-01'' ''%d.%m.%Y'' = Inl ValueError
   \<and> Record_init
        (\<lambda>s f. if s = ''01.02.2020'' \<and> f = ''%d.%m.%Y''
                then Inr (Datetime (Date 737456) 0) else Inl ValueError)
        (\<lambda>i. Datetime (Date 738000) 43200000000) 0 (PyInt 145) ''coffee'' None =
      (Inr \<lparr>amount = PyInt 145, date = Date 738000, comment = ''coffee''\<rparr>, 1)
   \<and> Record_init
        (\<lambda>s f. if s = ''01.02.2020'' \<and> f = ''%d.%m.%Y''
                then Inr (Datetime (Date 737456) 0) else Inl ValueError)
        (\<lambda>i. Datetime (Date 738000) 43200000000) 0 (PyInt 145) ''coffee''
        (Some ''01.02.2020'') =
      (Inr \<lparr>amount = PyInt 145, date = Date 737456, comment = ''coffee''\<rparr>, 0)
   \<and> Record_init
        (\<lambda>s f. if s = ''01.02.2020'' \<and> f = ''%d.%m.%Y''
                then Inr (Datetime (Date 737456) 0) else Inl ValueError)
        (\<lambda>i. Datetime (Date 738000) 43200000000) 0 (PyInt 145) ''coffee''
        (Some ''2020-02-01'') =
      (Inl ValueError, 0)"
  using Record_init_date
    [of None
        "\<lambda>s f. if s = ''01.02.2020'' \<and> f = ''%d.%m.%Y''
               then Inr (Datetime (Date 737456) 0) else Inl ValueError"
        "\<lambda>i. Datetime (Date 738000) 43200000000" 0 "PyInt 145" "''coffee''"]
    Record_init_date
    [of "Some ''01.02.2020''"
        "\<lambda>s f. if s = ''01.02.2020'' \<and> f = ''%d.%m.%Y''
               then Inr (Datetime (Date 737456) 0) else Inl ValueError"
        "\<lambda>i. Datetime (Date 738000) 43200000000" 0 "PyInt 145" "''coffee''"
        "''01.02.2020''" "Datetime (Date 737456) 0"]
    Record_init_date
    [of "Some ''2020-02-01''"
        "\<lambda>s f. if s = ''01.02.2020'' \<and> f = ''%d.%m.%Y''
               then Inr (Datetime (Date 737456) 0) else Inl ValueError"
        "\<lambda>i. Datetime (Date 738000) 43200000000" 0 "PyInt 145" "''coffee''"
        "''2020-02-01''" _ ValueError]
  by simp

text \<open>
  Claim C9. The empty text as date argument gives what omitting the argument gives: the
  record dated by the clock reading. The result does not depend on the parser, which is
  therefore not consulted, and it is never an error.
\<close>

theorem Record_init_empty_date:
  "Record_init strptime clk t a c (Some []) = Record_init strptime clk t a c None
   \<and> Record_init strptime clk t a c (Some []) =
       (Inr \<lparr>amount = a, date = datetime_date (clk t), comment = c\<rparr>, Suc t)
   \<and> Record_init strptime clk t a c (Some []) = Record_init strptime' clk t a c (Some [])"
  by (simp add: Record_init_def now_def)

theorem Record_init_empty_date_witness:
  "Record_init (\<lambda>s f. Inl ValueError) (\<lambda>i. Datetime (Date 738000) 43200000000) 0
      (PyInt 145) ''coffee'' (Some []) =
     (Inr \<lparr>amount = PyInt 145, date = Date 738000, comment = ''coffee''\<rparr>, 1)"
  using Record_init_empty_date
    [of "\<lambda>s f. Inl ValueError" "\<lambda>i. Datetime (Date 738000) 43200000000" 0
        "PyInt 145" "''coffee''" "\<lambda>s f. Inl ValueError"]
  by (elim conjE) simp

subsection \<open>The calorie message\<close>

text \<open>
  Claim C7. With \<open>remaining\<close> the limit minus today's total, \<open>get_calories_remained\<close>
  returns the "you may still eat" message (\<open>MSG_EAT_MORE\<close>, the number, \<open>MSG_KCAL\<close>)
  carrying \<open>remaining\<close> itself when \<open>remaining > 0\<close>, and the fixed "stop eating!"
  message (\<open>MSG_STOP_EATING\<close>) when \<open>remaining \<le> 0\<close>. The source's literals are
  Russian; the English wording is that of the specification.
\<close>

theorem get_calories_remained_message:
  assumes "remaining = py_sub (limit self) (fst (get_today_stats clk t self))"
  shows "to_real remaining = to_real (limit self) - to_real (fst (get_today_stats clk t self))
       \<and> (0 < to_real remaining \<longrightarrow>
            fst (get_calories_remained clk t self) =
              [Lit MSG_EAT_MORE, Fmt remaining [], Lit MSG_KCAL])
       \<and> (to_real remaining \<le> 0 \<longrightarrow>
            fst (get_calories_remained clk t self) = [Lit MSG_STOP_EATING])"
  using assms
  by (simp add: get_calories_remained_def Let_def py_gt_def to_real_py_sub split: prod.splits)

theorem get_calories_remained_message_witness:
  "PyInt 1500 = py_sub (limit (example_calculator (PyInt 2000) [PyInt 300, PyInt 200]))
       (fst (get_today_stats example_clock 0
              (example_calculator (PyInt 2000) [PyInt 300, PyInt 200])))
   \<and> 0 < to_real (PyInt 1500)
   \<and> fst (get_calories_remained example_clock 0
        (example_calculator (PyInt 2000) [PyInt 300, PyInt 200])) =
       [Lit MSG_EAT_MORE, Fmt (PyInt 1500) [], Lit MSG_KCAL]
   \<and> PyInt 0 = py_sub (limit (example_calculator (PyInt 2000) [PyInt 1200, PyInt 800]))
       (fst (get_today_stats example_clock 0
              (example_calculator (PyInt 2000) [PyInt 1200, PyInt 800])))
   \<and> to_real (PyInt 0) \<le> 0
   \<and> fst (get_calories_remained example_clock 0
        (example_calculator (PyInt 2000) [PyInt 1200, PyInt 800])) =
       [Lit MSG_STOP_EATING]"
  using get_calories_remained_message
    [of "PyInt 1500" "example_calculator (PyInt 2000) [PyInt 300, PyInt 200]" example_clock 0]
    get_calories_remained_message
    [of "PyInt 0" "example_calculator (PyInt 2000) [PyInt 1200, PyInt 800]" example_clock 0]
  by (simp add: example_simps)

subsection \<open>The cash message\<close>



text \<open>
  Claim C4. For the currency \<^verbatim>\<open>rub\<close> the amount reported is \<open>remaining\<close> itself, the
  limit minus today's total, with no division; the label is \<open>LABEL_RUB\<close>, the UTF-8
  bytes of the three Cyrillic letters of line 170; and the whole result is the same
  whatever the two rate arguments are.
\<close>

theorem get_today_cash_remained_rub:
  assumes remaining: "remaining = py_sub (limit self) (fst (get_today_stats clk t self))"
  shows "(0 < to_real remaining \<longrightarrow>
            fst (get_today_cash_remained clk t self ''rub'' USD_RATE_arg EURO_RATE_arg) =
              Inr (Some [Lit MSG_LEFT_TODAY, Fmt (py_round remaining 2) [], Lit '' '',
                         Lit LABEL_RUB]))
       \<and> (to_real remaining = 0 \<longrightarrow>
            fst (get_today_cash_remained clk t self ''rub'' USD_RATE_arg EURO_RATE_arg) =
              Inr (Some [Lit MSG_NO_MONEY]))
       \<and> (to_real remaining < 0 \<longrightarrow>
            fst (get_today_cash_remained clk t self ''rub'' USD_RATE_arg EURO_RATE_arg) =
              Inr (Some [Lit MSG_DEBT, Fmt (py_neg remaining) ''.2f'', Lit '' '',
                         Lit LABEL_RUB]))
       \<and> LABEL_RUB = [CHR 0xD1, CHR 0x80, CHR 0xD1, CHR 0x83, CHR 0xD0, CHR 0xB1]
       \<and> get_today_cash_remained clk t self ''rub'' USD_RATE_arg EURO_RATE_arg =
           get_today_cash_remained clk t self ''rub'' USD_RATE_arg' EURO_RATE_arg'"
proof -
  have call: "get_today_cash_remained clk t self ''rub'' u e =
      (Inr (Some (if 0 < to_real remaining
                  then [Lit MSG_LEFT_TODAY, Fmt (py_round remaining 2) [], Lit '' '',
                        Lit LABEL_RUB]
                  else if to_real remaining = 0
                  then [Lit MSG_NO_MONEY]
                  else [Lit MSG_DEBT, Fmt (py_neg remaining) ''.2f'', Lit '' '',
                        Lit LABEL_RUB])),
       snd (get_today_stats clk t self))" for u e
    using remaining by (simp add: cash_sign_cases split: prod.splits)
  show ?thesis
    by (simp add: call LABEL_RUB_def)
qed

theorem get_today_cash_remained_rub_witness:
  "PyInt 200 = py_sub (limit (example_calculator (PyInt 1000) [PyInt 800]))
       (fst (get_today_stats example_clock 0 (example_calculator (PyInt 1000) [PyInt 800])))
   \<and> 0 < to_real (PyInt 200)
   \<and> fst (get_today_cash_remained example_clock 0
        (example_calculator (PyInt 1000) [PyInt 800]) ''rub'' (Some (PyInt 0)) (Some (PyFloat 0))) =
       Inr (Some [Lit MSG_LEFT_TODAY, Fmt (PyInt 200) [], Lit '' '', Lit LABEL_RUB])
   \<and> PyFloat 0 = py_sub (limit (example_calculator (PyInt 1000) [PyFloat 999.5, PyFloat 0.5]))
       (fst (get_today_stats example_clock 0
              (example_calculator (PyInt 1000) [PyFloat 999.5, PyFloat 0.5])))
   \<and> to_real (PyFloat 0) = 0
   \<and> fst (get_today_cash_remained example_clock 0
        (example_calculator (PyInt 1000) [PyFloat 999.5, PyFloat 0.5]) ''rub'' None None) =
       Inr (Some [Lit MSG_NO_MONEY])
   \<and> PyInt (- 200) = py_sub (limit (example_calculator (PyInt 1000) [PyInt 800, PyInt 400]))
       (fst (get_today_stats example_clock 0
              (example_calculator (PyInt 1000) [PyInt 800, PyInt 400])))
   \<and> to_real (PyInt (- 200)) < 0
   \<and> fst (get_today_cash_remained example_clock 0
        (example_calculator (PyInt 1000) [PyInt 800, PyInt 400]) ''rub'' None None) =
       Inr (Some [Lit MSG_DEBT, Fmt (PyInt 200) ''.2f'', Lit '' '', Lit LABEL_RUB])"
  using get_today_cash_remained_rub
    [of "PyInt 200" "example_calculator (PyInt 1000) [PyInt 800]" example_clock 0
        "Some (PyInt 0)" "Some (PyFloat 0)"]
    get_today_cash_remained_rub
    [of "PyFloat 0" "example_calculator (PyInt 1000) [PyFloat 999.5, PyFloat 0.5]"
        example_clock 0 None None]
    get_today_cash_remained_rub
    [of "PyInt (- 200)" "example_calculator (PyInt 1000) [PyInt 800, PyInt 400]"
        example_clock 0 None None]
  by (simp add: example_simps)

text \<open>
  Claim C6. For a currency that is none of \<^verbatim>\<open>usd\<close>, \<^verbatim>\<open>eur\<close>, \<^verbatim>\<open>rub\<close> (compared
  as they are, so \<^verbatim>\<open>USD\<close> is such a currency) the method raises nothing and returns a
  message made from \<open>remaining\<close> unconverted, the label being the currency text as it was
  passed.
\<close>

theorem get_today_cash_remained_other:
  assumes other: "currency \<noteq> ''usd''" "currency \<noteq> ''eur''" "currency \<noteq> ''rub''"
    and remaining: "remaining = py_sub (limit self) (fst (get_today_stats clk t self))"
  shows "(0 < to_real remaining \<longrightarrow>
            fst (get_today_cash_remained clk t self currency USD_RATE_arg EURO_RATE_arg) =
              Inr (Some [Lit MSG_LEFT_TODAY, Fmt (py_round remaining 2) [], Lit '' '',
                         Lit currency]))
       \<and> (to_real remaining = 0 \<longrightarrow>
            fst (get_today_cash_remained clk t self currency USD_RATE_arg EURO_RATE_arg) =
              Inr (Some [Lit MSG_NO_MONEY]))
       \<and> (to_real remaining < 0 \<longrightarrow>
            fst (get_today_cash_remained clk t self currency USD_RATE_arg EURO_RATE_arg) =
              Inr (Some [Lit MSG_DEBT, Fmt (py_neg remaining) ''.2f'', Lit '' '',
                         Lit currency]))
       \<and> (\<exists>m. fst (get_today_cash_remained clk t self currency USD_RATE_arg EURO_RATE_arg) =
              Inr (Some m))"
proof -
  have call: "get_today_cash_remained clk t self currency USD_RATE_arg EURO_RATE_arg =
      (Inr (Some (if 0 < to_real remaining
                  then [Lit MSG_LEFT_TODAY, Fmt (py_round remaining 2) [], Lit '' '',
                        Lit currency]
                  else if to_real remaining = 0
                  then [Lit MSG_NO_MONEY]
                  else [Lit MSG_DEBT, Fmt (py_neg remaining) ''.2f'', Lit '' '',
                        Lit currency])),
       snd (get_today_stats clk t self))"
    using other remaining by (simp add: cash_sign_cases split: prod.splits)
  show ?thesis
    by (simp add: call)
qed

theorem get_today_cash_remained_other_witness:
  "''USD'' \<noteq> ''usd'' \<and> ''USD'' \<noteq> ''eur'' \<and> ''USD'' \<noteq> ''rub''
   \<and> PyInt 200 = py_sub (limit (example_calculator (PyInt 1000) [PyInt 800]))
       (fst (get_today_stats example_clock 0 (example_calculator (PyInt 1000) [PyInt 800])))
   \<and> 0 < to_real (PyInt 200)
   \<and> fst (get_today_cash_remained example_clock 0
        (example_calculator (PyInt 1000) [PyInt 800]) ''USD'' None None) =
       Inr (Some [Lit MSG_LEFT_TODAY, Fmt (PyInt 200) [], Lit '' '', Lit ''USD''])
   \<and> PyInt 0 = py_sub (limit (example_calculator (PyInt 1000) [PyInt 800, PyInt 200]))
       (fst (get_today_stats example_clock 0
              (example_calculator (PyInt 1000) [PyInt 800, PyInt 200])))
   \<and> to_real (PyInt 0) = 0
   \<and> fst (get_today_cash_remained example_clock 0
        (example_calculator (PyInt 1000) [PyInt 800, PyInt 200]) ''USD'' None None) =
       Inr (Some [Lit MSG_NO_MONEY])
   \<and> PyFloat (- 200.25) =
       py_sub (limit (example_calculator (PyInt 1000) [PyInt 800, PyFloat 400.25]))
       (fst (get_today_stats example_clock 0
              (example_calculator (PyInt 1000) [PyInt 800, PyFloat 400.25])))
   \<and> to_real (PyFloat (- 200.25)) < 0
   \<and> fst (get_today_cash_remained example_clock 0
        (example_calculator (PyInt 1000) [PyInt 800, PyFloat 400.25]) ''USD''
        (Some (PyInt 0)) None) =
       Inr (Some [Lit MSG_DEBT, Fmt (PyFloat 200.25) ''.2f'', Lit '' '', Lit ''USD''])"
  using get_today_cash_remained_other
    [of "''USD''" "PyInt 200" "example_calculator (PyInt 1000) [PyInt 800]" example_clock 0
        None None]
    get_today_cash_remained_other
    [of "''USD''" "PyInt 0" "example_calculator (PyInt 1000) [PyInt 800, PyInt 200]"
        example_clock 0 None None]
    get_today_cash_remained_other
    [of "''USD''" "PyFloat (- 200.25)"
        "example_calculator (PyInt 1000) [PyInt 800, PyFloat 400.25]" example_clock 0
        "Some (PyInt 0)" None]
  by (simp add: example_simps)



subsection \<open>The week total of CashCalculator\<close>

text \<open>
  Claim C8. For every state, \<open>CashCalculator_get_week_stats\<close> reads the clock as the base
  method does and returns \<open>None\<close>, while the base method \<open>get_week_stats\<close> on that state
  returns the total of the week window.
\<close>

theorem CashCalculator_get_week_stats_dead:
  "fst (CashCalculator_get_week_stats clk t self) = None
   \<and> snd (CashCalculator_get_week_stats clk t self) = snd (get_week_stats clk t self)
   \<and> fst (get_week_stats clk t self) =
       foldl py_add (PyInt 0) (map amount
         (filter (\<lambda>r. 0 \<le> days (date_sub (datetime_date (clk t)) (date r))
                     \<and> days (date_sub (datetime_date (clk t)) (date r)) < 7)
            (records self)))"
  by (simp add: CashCalculator_get_week_stats_def get_week_stats_def now_def week_loop_filter)

theorem CashCalculator_get_week_stats_dead_witness:
  "fst (CashCalculator_get_week_stats example_clock 0
          (example_calculator (PyInt 1000) [PyInt 800])) = None
   \<and> fst (get_week_stats example_clock 0
          (example_calculator (PyInt 1000) [PyInt 800])) = PyInt 800"
  using CashCalculator_get_week_stats_dead
    [of example_clock 0 "example_calculator (PyInt 1000) [PyInt 800]"]
  by (simp add: example_simps date_sub_def)

end
